theory Spec2Isabelle
  imports Main
begin

section \<open>Exceptions, paths and the environment\<close>

text \<open>
  The Python exceptions that the fetch script of \<^verbatim>\<open>io/fetch/nwp.py\<close> raises, catches or
  lets through. \<open>ClientConnectorError\<close> is aiohttp's subclass of \<open>ClientOSError\<close>;
  \<open>ServerDisconnectedError\<close> is an aiohttp connection error that is not a
  \<open>ClientOSError\<close>. \<open>OSError\<close> carries the name of its subclass (empty for the plain
  class). \<open>CancelledError\<close> is raised at an await whose answer never comes because the
  task is cancelled (the signal handlers of \<open>main\<close> cancel the running future).
\<close>

datatype exn =
    ClientResponseError
  | ClientPayloadError
  | ClientOSError
  | ClientConnectorError
  | ServerDisconnectedError
  | TimeoutError
  | CancelledError
  | KeyError
  | IndexError
  | ValueError
  | OSError string

definition is_ClientResponseError :: "exn \<Rightarrow> bool" where
  "is_ClientResponseError e = (e = ClientResponseError)"

definition is_ClientPayloadError :: "exn \<Rightarrow> bool" where
  "is_ClientPayloadError e = (e = ClientPayloadError)"

definition is_ClientOSError :: "exn \<Rightarrow> bool" where
  "is_ClientOSError e = (e = ClientOSError \<or> e = ClientConnectorError)"

text \<open>
  A \<open>pathlib.Path\<close> is the list of its components below the root. A node of the file
  system is a directory or a file with its content.
\<close>

type_synonym path = "string list"

datatype node = Dir | File string

type_synonym filesystem = "path \<rightharpoonup> node"

text \<open>
  A request is its method, URL and query parameters. The provider answers a request
  with a response or the transport raises. A response has a status, the instant of its
  \<open>Last-Modified\<close> header (seconds since 1970-01-01T00:00Z) when it has one, a body, and
  the error that interrupts the reading of the body, if any.
\<close>

datatype http_method = HEAD | GET

type_synonym request = "http_method \<times> string \<times> (string \<times> string) list"

record response =
  status :: nat
  last_modified :: "int option"
  body :: string
  body_error :: "exn option"

datatype reply = Raises exn | Reply response

text \<open>
  The world a run of the script acts on: the local file system; the provider's answers to
  the requests still to come, in order, and the requests sent so far; the readings that
  \<open>pd.Timestamp.utcnow()\<close> returns, by number of the reading; the durations slept with
  \<open>asyncio.sleep\<close>; the names \<open>tempfile.mkstemp\<close> tries; and the two external
  programs: the \<open>wgrib2\<close> shell script (folder, output file, grib prefix, match flag:
  exit status and the file system it leaves) and the netCDF re-encoding done by xarray
  (content of the input: content of the output, or the error).
\<close>

record world =
  fs :: filesystem
  replies :: "reply list"
  requests :: "request list"
  clock :: "nat \<Rightarrow> int"
  ticks :: nat
  slept :: "int list"
  tmpnames :: "string list"
  wgrib2 :: "path \<Rightarrow> path \<Rightarrow> string \<Rightarrow> string \<Rightarrow> filesystem \<Rightarrow> nat \<times> filesystem"
  encode_netcdf :: "string \<Rightarrow> exn + string"

definition asyncio_sleep :: "int \<Rightarrow> world \<Rightarrow> world" where
  "asyncio_sleep seconds w = w\<lparr>slept := slept w @ [seconds]\<rparr>"

definition utcnow :: "world \<Rightarrow> int \<times> world" where
  "utcnow w = (clock w (ticks w), w\<lparr>ticks := Suc (ticks w)\<rparr>)"

text \<open>
  Sending a request takes the provider's next answer. When no answer is left the task is
  cancelled while it waits.
\<close>

definition send :: "request \<Rightarrow> world \<Rightarrow> (exn + response) \<times> world" where
  "send rq w =
     (case replies w of
        [] \<Rightarrow> (Inl CancelledError, w\<lparr>requests := requests w @ [rq]\<rparr>)
      | Raises e # rs \<Rightarrow> (Inl e, w\<lparr>replies := rs, requests := requests w @ [rq]\<rparr>)
      | Reply r # rs \<Rightarrow> (Inr r, w\<lparr>replies := rs, requests := requests w @ [rq]\<rparr>))"

text \<open>\<open>raise_for_status=True\<close> turns a status of 400 or more into \<open>ClientResponseError\<close>.\<close>

definition session_request ::
  "http_method \<Rightarrow> string \<Rightarrow> (string \<times> string) list \<Rightarrow> bool \<Rightarrow> world \<Rightarrow> (exn + response) \<times> world" where
  "session_request meth url params raise_for_status w =
     (case send (meth, url, params) w of
        (Inl e, w') \<Rightarrow> (Inl e, w')
      | (Inr r, w') \<Rightarrow>
          if raise_for_status \<and> 400 \<le> status r then (Inl ClientResponseError, w')
          else (Inr r, w'))"

section \<open>Strings, instants and paths\<close>

text \<open>Decimal digits, \<open>str(n)\<close>, the format \<open>0Nd\<close> and \<open>int(s)\<close> on digits.\<close>

definition is_digit :: "char \<Rightarrow> bool" where
  "is_digit c = (c \<in> set ''0123456789'')"

function str_nat :: "nat \<Rightarrow> string" where
  "str_nat n = (if n < 10 then [''0123456789'' ! n]
                else str_nat (n div 10) @ [''0123456789'' ! (n mod 10)])"
  by pat_completeness auto
termination
  by (relation "measure id") auto

declare str_nat.simps [simp del]

definition zero_pad :: "nat \<Rightarrow> nat \<Rightarrow> string" where
  "zero_pad width n = replicate (width - length (str_nat n)) CHR ''0'' @ str_nat n"

definition digit_val :: "char \<Rightarrow> nat" where
  "digit_val c = length (takeWhile (\<lambda>d. d \<noteq> c) ''0123456789'')"

definition int_of_digits :: "string \<Rightarrow> nat" where
  "int_of_digits s = foldl (\<lambda>a c. 10 * a + digit_val c) 0 s"

text \<open>\<open>s.split(c)\<close> and \<open>s.endswith(t)\<close> and \<open>t in s\<close> of Python strings.\<close>

fun split_on :: "char \<Rightarrow> string \<Rightarrow> string list" where
  "split_on c [] = [[]]"
| "split_on c (x # xs) =
     (if x = c then [] # split_on c xs
      else (case split_on c xs of [] \<Rightarrow> [[x]] | p # ps \<Rightarrow> (x # p) # ps))"

definition endswith :: "string \<Rightarrow> string \<Rightarrow> bool" where
  "endswith s t = (length t \<le> length s \<and> drop (length s - length t) s = t)"

definition startswith :: "string \<Rightarrow> string \<Rightarrow> bool" where
  "startswith s t = (take (length t) s = t)"

fun contains :: "string \<Rightarrow> string \<Rightarrow> bool" where
  "contains [] t = (t = [])"
| "contains (x # xs) t = (startswith (x # xs) t \<or> contains xs t)"

text \<open>
  An instant (\<open>pd.Timestamp\<close>, in UTC) is its number of seconds since
  1970-01-01T00:00Z, an unbounded integer: the range that a pandas timestamp can
  represent (years 1677 to 2262) is not modelled. The calendar is the proleptic
  Gregorian one.
\<close>

type_synonym instant = int

definition days_from_civil :: "int \<Rightarrow> int \<Rightarrow> int \<Rightarrow> int" where
  "days_from_civil y m d =
     (let y' = (if m \<le> 2 then y - 1 else y);
          era = y' div 400;
          yoe = y' - era * 400;
          doy = (153 * (if m > 2 then m - 3 else m + 9) + 2) div 5 + d - 1;
          doe = yoe * 365 + yoe div 4 - yoe div 100 + doy
      in era * 146097 + doe - 719468)"

definition civil_from_days :: "int \<Rightarrow> int \<times> int \<times> int" where
  "civil_from_days z =
     (let z' = z + 719468;
          era = z' div 146097;
          doe = z' - era * 146097;
          yoe = (doe - doe div 1460 + doe div 36524 - doe div 146096) div 365;
          doy = doe - (365 * yoe + yoe div 4 - yoe div 100);
          mp = (5 * doy + 2) div 153;
          d = doy - (153 * mp + 2) div 5 + 1;
          m = (if mp < 10 then mp + 3 else mp - 9)
      in (yoe + era * 400 + (if m \<le> 2 then 1 else 0), m, d))"

definition days_in_month :: "int \<Rightarrow> int \<Rightarrow> int" where
  "days_in_month y m =
     (if m = 2 then (if y mod 4 = 0 \<and> (y mod 100 \<noteq> 0 \<or> y mod 400 = 0) then 29 else 28)
      else if m = 4 \<or> m = 6 \<or> m = 9 \<or> m = 11 then 30 else 31)"

text \<open>
  \<open>pd.Timestamp(s)\<close> for the strings the script builds, \<open>YYYYMMDDTHHMMZ\<close>; a string
  that names no instant raises \<open>ValueError\<close>.
\<close>

definition pd_Timestamp :: "string \<Rightarrow> exn + instant" where
  "pd_Timestamp s =
     (if length s = 14 \<and> (\<forall>c \<in> set (take 8 s). is_digit c)
          \<and> (\<forall>c \<in> set (take 4 (drop 9 s)). is_digit c)
          \<and> s ! 8 = CHR ''T'' \<and> s ! 13 = CHR ''Z''
      then
        (let y = int (int_of_digits (take 4 s));
             m = int (int_of_digits (take 2 (drop 4 s)));
             d = int (int_of_digits (take 2 (drop 6 s)));
             hh = int (int_of_digits (take 2 (drop 9 s)));
             mm = int (int_of_digits (take 2 (drop 11 s)))
         in if 1 \<le> m \<and> m \<le> 12 \<and> 1 \<le> d \<and> d \<le> days_in_month y m \<and> hh \<le> 23 \<and> mm \<le> 59
            then Inr (days_from_civil y m d * 86400 + hh * 3600 + mm * 60)
            else Inl ValueError)
      else Inl ValueError)"

definition hour :: "instant \<Rightarrow> nat" where
  "hour t = nat ((t mod 86400) div 3600)"

text \<open>The formats \<open>%Y%m%d\<close>, \<open>%H\<close>, \<open>%Y%m%d%H\<close> and \<open>%Y/%m/%d/%H\<close> of \<open>strftime\<close>.\<close>

definition strftime_Ymd :: "instant \<Rightarrow> string" where
  "strftime_Ymd t = (case civil_from_days (t div 86400) of
     (y, m, d) \<Rightarrow> zero_pad 4 (nat y) @ zero_pad 2 (nat m) @ zero_pad 2 (nat d))"

definition strftime_H :: "instant \<Rightarrow> string" where
  "strftime_H t = zero_pad 2 (hour t)"

definition strftime_YmdH :: "instant \<Rightarrow> string" where
  "strftime_YmdH t = strftime_Ymd t @ strftime_H t"

definition strftime_path :: "instant \<Rightarrow> string" where
  "strftime_path t = (case civil_from_days (t div 86400) of
     (y, m, d) \<Rightarrow> zero_pad 4 (nat y) @ ''/'' @ zero_pad 2 (nat m) @ ''/'' @ zero_pad 2 (nat d)
                  @ ''/'' @ strftime_H t)"

text \<open>
  \<open>pathlib\<close>: \<open>p / s\<close>, \<open>name\<close>, \<open>parent\<close>, \<open>suffix\<close>, \<open>with_suffix\<close> and
  \<open>with_name\<close>, with the \<open>ValueError\<close>s of the last two.
\<close>

definition parts :: "string \<Rightarrow> path" where
  "parts s = filter (\<lambda>p. p \<noteq> [] \<and> p \<noteq> ''.'') (split_on CHR ''/'' s)"

definition joinpath :: "path \<Rightarrow> string \<Rightarrow> path" where
  "joinpath p s = (if startswith s ''/'' then parts s else p @ parts s)"

definition name :: "path \<Rightarrow> string" where
  "name p = (if p = [] then [] else last p)"

definition parent :: "path \<Rightarrow> path" where
  "parent p = butlast p"

definition rfind :: "char \<Rightarrow> string \<Rightarrow> int" where
  "rfind c s = (case filter (\<lambda>i. s ! i = c) (rev [0..<length s]) of [] \<Rightarrow> - 1 | i # _ \<Rightarrow> int i)"

definition suffix :: "path \<Rightarrow> string" where
  "suffix p =
     (let i = rfind CHR ''.'' (name p)
      in if 0 < i \<and> i < int (length (name p)) - 1 then drop (nat i) (name p) else [])"

definition with_suffix :: "path \<Rightarrow> string \<Rightarrow> exn + path" where
  "with_suffix p suf =
     (if CHR ''/'' \<in> set suf then Inl ValueError
      else if (suf \<noteq> [] \<and> \<not> startswith suf ''.'') \<or> suf = ''.'' then Inl ValueError
      else if name p = [] then Inl ValueError
      else if suffix p = [] then Inr (butlast p @ [name p @ suf])
      else Inr (butlast p @ [take (length (name p) - length (suffix p)) (name p) @ suf]))"

definition with_name :: "path \<Rightarrow> string \<Rightarrow> exn + path" where
  "with_name p n =
     (if name p = [] then Inl ValueError
      else if n = [] \<or> CHR ''/'' \<in> set n \<or> parts n \<noteq> [n] then Inl ValueError
      else Inr (butlast p @ [n]))"

text \<open>The file system calls of the script. The root always exists and is a directory.\<close>

definition exists :: "filesystem \<Rightarrow> path \<Rightarrow> bool" where
  "exists f p = (p = [] \<or> f p \<noteq> None)"

definition is_dir :: "filesystem \<Rightarrow> path \<Rightarrow> bool" where
  "is_dir f p = (p = [] \<or> f p = Some Dir)"

fun mkdirs :: "filesystem \<Rightarrow> path \<Rightarrow> path \<Rightarrow> exn + filesystem" where
  "mkdirs f sofar [] = Inr f"
| "mkdirs f sofar (c # cs) =
     (case f (sofar @ [c]) of
        None \<Rightarrow> mkdirs (f(sofar @ [c] \<mapsto> Dir)) (sofar @ [c]) cs
      | Some Dir \<Rightarrow> mkdirs f (sofar @ [c]) cs
      | Some (File x) \<Rightarrow> Inl (OSError ''NotADirectoryError''))"

definition mkdir_parents :: "filesystem \<Rightarrow> path \<Rightarrow> exn + filesystem" where
  "mkdir_parents f p =
     (if exists f p then Inl (OSError ''FileExistsError'') else mkdirs f [] p)"

definition write_file :: "filesystem \<Rightarrow> path \<Rightarrow> string \<Rightarrow> exn + filesystem" where
  "write_file f p content =
     (if is_dir f p then Inl (OSError ''IsADirectoryError'')
      else if \<not> is_dir f (parent p) then Inl (OSError ''FileNotFoundError'')
      else Inr (f(p \<mapsto> File content)))"

definition unlink :: "filesystem \<Rightarrow> path \<Rightarrow> exn + filesystem" where
  "unlink f p =
     (if is_dir f p then Inl (OSError ''IsADirectoryError'')
      else if \<not> exists f p then Inl (OSError ''FileNotFoundError'')
      else Inr (f(p := None)))"

definition rename :: "filesystem \<Rightarrow> path \<Rightarrow> path \<Rightarrow> exn + filesystem" where
  "rename f src dst =
     (if \<not> exists f src then Inl (OSError ''FileNotFoundError'')
      else if is_dir f src then Inl (OSError ''directory'')
      else if is_dir f dst then Inl (OSError ''IsADirectoryError'')
      else if \<not> is_dir f (parent dst) then Inl (OSError ''FileNotFoundError'')
      else if src = dst then Inr f
      else Inr (f(dst := f src, src := None)))"

text \<open>
  \<open>tempfile.mkstemp(dir=folder)\<close> creates an empty file under the first of the names it
  tries that is not taken, and gives up with \<open>FileExistsError\<close> when none is left.
\<close>

definition mkstemp :: "path \<Rightarrow> world \<Rightarrow> (exn + path) \<times> world" where
  "mkstemp folder w =
     (if \<not> is_dir (fs w) folder then (Inl (OSError ''FileNotFoundError''), w)
      else case dropWhile (\<lambda>n. exists (fs w) (folder @ [n])) (tmpnames w) of
        [] \<Rightarrow> (Inl (OSError ''FileExistsError''), w\<lparr>tmpnames := []\<rparr>)
      | n # ns \<Rightarrow> (Inr (folder @ [n]),
                   w\<lparr>fs := (fs w)(folder @ [n] \<mapsto> File []), tmpnames := ns\<rparr>))"

section \<open>Retrying a request\<close>

text \<open>
  \<open>get_with_retries\<close>: the \<open>while True\<close> loop with its counter \<open>retried\<close>. The two
  \<open>except\<close> clauses are kept apart as in the source; an exception that neither catches
  leaves the loop. Logging is not modelled.
\<close>

function get_with_retries_loop ::
  "(world \<Rightarrow> (exn + 'a) \<times> world) \<Rightarrow> int \<Rightarrow> int \<Rightarrow> world \<Rightarrow> (exn + 'a) \<times> world" where
  "get_with_retries_loop get_func retries retried w =
     (case get_func w of
        (Inr res, w') \<Rightarrow> (Inr res, w')
      | (Inl e, w') \<Rightarrow>
          if is_ClientResponseError e then
            (if retried + 1 \<ge> retries then (Inl e, w')
             else get_with_retries_loop get_func retries (retried + 1) (asyncio_sleep 60 w'))
          else if is_ClientPayloadError e \<or> is_ClientOSError e then
            (if retried + 1 \<ge> retries then (Inl e, w')
             else get_with_retries_loop get_func retries (retried + 1) (asyncio_sleep 60 w'))
          else (Inl e, w'))"
  by pat_completeness auto
termination
  by (relation "measure (\<lambda>(get_func, retries, retried, w). nat (retries - retried))") auto

declare get_with_retries_loop.simps [simp del]

definition get_with_retries ::
  "(world \<Rightarrow> (exn + 'a) \<times> world) \<Rightarrow> int \<Rightarrow> world \<Rightarrow> (exn + 'a) \<times> world" where
  "get_with_retries get_func retries w = get_with_retries_loop get_func retries 0 w"

text \<open>The errors that \<open>get_with_retries\<close> retries.\<close>

definition transient :: "exn \<Rightarrow> bool" where
  "transient e = (is_ClientResponseError e \<or> is_ClientPayloadError e \<or> is_ClientOSError e)"



section \<open>Source profiles\<close>

text \<open>
  The dictionary of a model. The templates \<open>'dir'\<close> and \<open>'file'\<close> are lists of
  literal text and replacement fields, so that \<open>str.format\<close> cannot fail on them:
  \<open>'dir'\<close> is formatted with the strings \<open>init_date\<close>, \<open>init_dt\<close> and \<open>init_hr\<close>,
  \<open>'file'\<close> with the integers \<open>init_hr\<close> and \<open>valid_hr\<close>. \<open>query\<close> holds the
  level and variable flags sent to the filter endpoint. \<open>update_freq\<close> is in hours
  (\<open>'6h'\<close>), \<open>delay_to_first_forecast\<close> and \<open>avg_max_run_length\<close> in minutes
  (\<open>'200min'\<close>), \<open>time_between_fcst_hrs\<close> in seconds.
\<close>

datatype dir_field = DText string | Init_date | Init_dt | Init_hr

datatype file_field = FText string | Init_hr_02d | Valid_hr_02d | Valid_hr_03d

record model =
  endpoint :: string
  file_template :: "file_field list"
  dir :: "dir_field list"
  query :: "(string \<times> string) list"
  update_freq :: nat
  valid_hr_gen :: "nat \<Rightarrow> nat list"
  time_between_fcst_hrs :: nat
  delay_to_first_forecast :: nat
  avg_max_run_length :: nat
  filename :: string
  check_url_name :: "string option"
  member :: "string option"

text \<open>The text of a template, as the source writes it.\<close>

fun dir_text :: "dir_field list \<Rightarrow> string" where
  "dir_text [] = []"
| "dir_text (DText s # rest) = s @ dir_text rest"
| "dir_text (Init_date # rest) = ''{init_date}'' @ dir_text rest"
| "dir_text (Init_dt # rest) = ''{init_dt}'' @ dir_text rest"
| "dir_text (Init_hr # rest) = ''{init_hr}'' @ dir_text rest"

fun file_text :: "file_field list \<Rightarrow> string" where
  "file_text [] = []"
| "file_text (FText s # rest) = s @ file_text rest"
| "file_text (Init_hr_02d # rest) = ''{init_hr:02d}'' @ file_text rest"
| "file_text (Valid_hr_02d # rest) = ''{valid_hr:02d}'' @ file_text rest"
| "file_text (Valid_hr_03d # rest) = ''{valid_hr:03d}'' @ file_text rest"

text \<open>
  \<open>model['dir'].format(init_date=t.strftime('%Y%m%d'), init_dt=t.strftime('%Y%m%d%H'),
  init_hr=t.strftime('%H'))\<close> and \<open>model['file'].format(init_hr=h, valid_hr=v)\<close>.
\<close>

fun format_dir :: "dir_field list \<Rightarrow> instant \<Rightarrow> string" where
  "format_dir [] t = []"
| "format_dir (DText s # rest) t = s @ format_dir rest t"
| "format_dir (Init_date # rest) t = strftime_Ymd t @ format_dir rest t"
| "format_dir (Init_dt # rest) t = strftime_YmdH t @ format_dir rest t"
| "format_dir (Init_hr # rest) t = strftime_H t @ format_dir rest t"

fun format_file :: "file_field list \<Rightarrow> nat \<Rightarrow> nat \<Rightarrow> string" where
  "format_file [] init_hr valid_hr = []"
| "format_file (FText s # rest) init_hr valid_hr = s @ format_file rest init_hr valid_hr"
| "format_file (Init_hr_02d # rest) init_hr valid_hr =
     zero_pad 2 init_hr @ format_file rest init_hr valid_hr"
| "format_file (Valid_hr_02d # rest) init_hr valid_hr =
     zero_pad 2 valid_hr @ format_file rest init_hr valid_hr"
| "format_file (Valid_hr_03d # rest) init_hr valid_hr =
     zero_pad 3 valid_hr @ format_file rest init_hr valid_hr"

text \<open>\<open>range(start, stop, step)\<close> for a positive step.\<close>

definition py_range :: "nat \<Rightarrow> nat \<Rightarrow> nat \<Rightarrow> nat list" where
  "py_range start stop step =
     map (\<lambda>i. start + step * i) [0..<(stop - start + step - 1) div step]"

definition CHECK_URL :: "string \<Rightarrow> string" where
  "CHECK_URL n = ''https://nomads.ncep.noaa.gov/pub/data/nccf/com/'' @ n @ ''/prod''"

definition BASE_URL :: string where
  "BASE_URL = ''https://nomads.ncep.noaa.gov/cgi-bin/''"

definition DOMAIN :: "(string \<times> string) list" where
  "DOMAIN = [(''subregion'', []), (''leftlon'', ''-126''), (''rightlon'', ''-66''),
             (''toplat'', ''50''), (''bottomlat'', ''24'')]"

definition levels_and_variables :: "(string \<times> string) list" where
  "levels_and_variables =
     [(''lev_2_m_above_ground'', ''on''), (''lev_10_m_above_ground'', ''on''),
      (''lev_entire_atmosphere'', ''on''), (''lev_surface'', ''on''),
      (''var_DSWRF'', ''on''), (''var_TCDC'', ''on''), (''var_TMP'', ''on''),
      (''var_UGRD'', ''on''), (''var_VGRD'', ''on'')]"

definition GFS_0P25_1HR :: model where
  "GFS_0P25_1HR =
     \<lparr>endpoint = ''filter_gfs_0p25_1hr.pl'',
      file_template = [FText ''gfs.t'', Init_hr_02d, FText ''z.pgrb2.0p25.f'', Valid_hr_03d],
      dir = [DText ''/gfs.'', Init_dt],
      query = levels_and_variables,
      update_freq = 6,
      valid_hr_gen = (\<lambda>x. [0..<120] @ py_range 120 240 3 @ py_range 240 385 12),
      time_between_fcst_hrs = 60,
      delay_to_first_forecast = 200,
      avg_max_run_length = 100,
      filename = ''gfs_0p25.nc'',
      check_url_name = None,
      member = None\<rparr>"


text \<open>\<open>_simple_model\<close>: \<open>model['dir'].split('.')[0][1:]\<close>.\<close>

definition simple_model :: "model \<Rightarrow> string" where
  "simple_model m =
     (case split_on CHR ''.'' (dir_text (dir m)) of [] \<Rightarrow> [] | x # _ \<Rightarrow> drop 1 x)"

section \<open>Finding the run to fetch\<close>

text \<open>
  \<open>get_available_dirs\<close>. Its inner \<open>_get\<close> reads the text of the page; the two
  \<open>re.findall\<close> take, from left to right, the 8 or 10 digits that follow the model's
  name and a dot (the names of the profiles are plain words, so the name is matched
  literally), and the set of the matches is listed in the order of their first
  occurrence.
\<close>

definition get_available_dirs_get :: "string \<Rightarrow> world \<Rightarrow> (exn + string) \<times> world" where
  "get_available_dirs_get model_url w =
     (case session_request GET model_url [] True w of
        (Inl e, w') \<Rightarrow> (Inl e, w')
      | (Inr r, w') \<Rightarrow>
          (case body_error r of Some e \<Rightarrow> (Inl e, w') | None \<Rightarrow> (Inr (body r), w')))"

function findall_dirs :: "string \<Rightarrow> nat \<Rightarrow> string \<Rightarrow> string list" where
  "findall_dirs pre n s =
     (if s = [] then []
      else if startswith s (pre @ ''.'')
              \<and> length (take n (drop (length pre + 1) s)) = n
              \<and> (\<forall>c \<in> set (take n (drop (length pre + 1) s)). is_digit c)
      then take n (drop (length pre + 1) s) # findall_dirs pre n (drop (length pre + 1 + n) s)
      else findall_dirs pre n (tl s))"
  by pat_completeness auto
termination
  by (relation "measure (\<lambda>(pre, n, s). length s)") auto

declare findall_dirs.simps [simp del]

definition get_available_dirs :: "model \<Rightarrow> world \<Rightarrow> (exn + string list) \<times> world" where
  "get_available_dirs m w =
     (let is_init_date = contains (dir_text (dir m)) ''init_date'';
          model_url = BASE_URL @ endpoint m
      in case get_with_retries (get_available_dirs_get model_url) 5 w of
           (Inl e, w') \<Rightarrow> (Inl e, w')
         | (Inr page, w') \<Rightarrow>
             if is_init_date then (Inr (remdups (findall_dirs (simple_model m) 8 page)), w')
             else (Inr (remdups (findall_dirs (simple_model m) 10 page)), w'))"

text \<open>\<open>sleep_until_inittime\<close>: the coroutine returns nothing, so the model is the world it leaves.\<close>

definition sleep_until_inittime :: "instant \<Rightarrow> model \<Rightarrow> world \<Rightarrow> world" where
  "sleep_until_inittime inittime m w =
     (case utcnow w of
        (now, w') \<Rightarrow>
          (let likely_ready_time = inittime + 60 * int (delay_to_first_forecast m)
           in if likely_ready_time > now then asyncio_sleep (likely_ready_time - now) w'
              else w'))"

text \<open>
  \<open>startup_find_next_runtime\<close>. \<open>first_time\<close> is \<open>pd.Timestamp('20000101T0000Z')\<close>. The
  two loops carry \<open>no_file\<close> and \<open>max_time\<close>; \<open>range(0, 24, 0)\<close> raises
  \<open>ValueError\<close>, as does a name that is no date.
\<close>

definition first_time :: instant where
  "first_time = 946684800"

fun startup_hours_loop ::
  "filesystem \<Rightarrow> model \<Rightarrow> path \<Rightarrow> string \<Rightarrow> nat list \<Rightarrow> instant list \<times> instant
     \<Rightarrow> exn + instant list \<times> instant" where
  "startup_hours_loop f m pth d [] (no_file, max_time) = Inr (no_file, max_time)"
| "startup_hours_loop f m pth d (hr # hrs) (no_file, max_time) =
     (let hrpath = joinpath pth (zero_pad 2 hr)
      in case pd_Timestamp (take 8 d @ ''T'' @ zero_pad 2 hr @ ''00Z'') of
           Inl e \<Rightarrow> Inl e
         | Inr hrtime \<Rightarrow>
             if \<not> exists f (joinpath hrpath (filename m))
             then startup_hours_loop f m pth d hrs (no_file @ [hrtime], max_time)
             else startup_hours_loop f m pth d hrs (no_file, max max_time hrtime))"

fun startup_dirs_loop ::
  "filesystem \<Rightarrow> model \<Rightarrow> path \<Rightarrow> string list \<Rightarrow> instant list \<times> instant
     \<Rightarrow> exn + instant list \<times> instant" where
  "startup_dirs_loop f m model_path [] (no_file, max_time) = Inr (no_file, max_time)"
| "startup_dirs_loop f m model_path (d # ds) (no_file, max_time) =
     (if length d = 8 then
        (let pth = joinpath (joinpath (joinpath model_path (take 4 d)) (take 2 (drop 4 d)))
                     (take 2 (drop 6 d))
         in if update_freq m = 0 then Inl ValueError
            else case startup_hours_loop f m pth d (py_range 0 24 (update_freq m))
                        (no_file, max_time) of
                   Inl e \<Rightarrow> Inl e
                 | Inr acc \<Rightarrow> startup_dirs_loop f m model_path ds acc)
      else
        (let hrpath = joinpath (joinpath (joinpath (joinpath model_path (take 4 d))
                        (take 2 (drop 4 d))) (take 2 (drop 6 d))) (take 2 (drop 8 d))
         in case pd_Timestamp (take 8 d @ ''T'' @ take 2 (drop 8 d) @ ''00Z'') of
              Inl e \<Rightarrow> Inl e
            | Inr hrtime \<Rightarrow>
                if \<not> exists f (joinpath hrpath (filename m))
                then startup_dirs_loop f m model_path ds (no_file @ [hrtime], max_time)
                else startup_dirs_loop f m model_path ds (no_file, max max_time hrtime)))"

definition startup_find_next_runtime :: "path \<Rightarrow> model \<Rightarrow> world \<Rightarrow> (exn + instant) \<times> world" where
  "startup_find_next_runtime model_path m w =
     (case get_available_dirs m w of
        (Inl e, w') \<Rightarrow> (Inl e, w')
      | (Inr dirs, w') \<Rightarrow>
          (case startup_dirs_loop (fs w') m model_path dirs ([], first_time) of
             Inl e \<Rightarrow> (Inl e, w')
           | Inr ([], max_time) \<Rightarrow>
               if max_time > first_time
               then (Inr (max_time + 3600 * int (update_freq m)),
                     sleep_until_inittime (max_time + 3600 * int (update_freq m)) m w')
               else (Inl ValueError, w')
           | Inr (t # ts, max_time) \<Rightarrow>
               (Inr (fold min ts t), sleep_until_inittime (fold min ts t) m w')))"

text \<open>
  \<open>next_run_time\<close> calls itself while the artifact of the next run exists; a recursion
  that never ends is the value \<open>None\<close>. The bound that the interpreter puts on the depth
  of the recursion is not modelled.
\<close>

partial_function (option) next_run_time ::
  "instant \<Rightarrow> path \<Rightarrow> model \<Rightarrow> world \<Rightarrow> (instant \<times> world) option" where
  "next_run_time inittime modelpath m w =
     (if exists (fs w) (joinpath (joinpath modelpath
            (strftime_path (inittime + 3600 * int (update_freq m)))) (filename m))
      then next_run_time (inittime + 3600 * int (update_freq m)) modelpath m w
      else Some (inittime + 3600 * int (update_freq m),
                 sleep_until_inittime (inittime + 3600 * int (update_freq m)) m w))"


definition instants_of :: "(path \<times> string) list \<Rightarrow> instant list" where
  "instants_of runs =
     concat (map (\<lambda>(p, s). case pd_Timestamp s of Inl e \<Rightarrow> [] | Inr t \<Rightarrow> [t]) runs)"

definition incomplete_runs :: "filesystem \<Rightarrow> model \<Rightarrow> (path \<times> string) list \<Rightarrow> instant list" where
  "incomplete_runs f m runs =
     instants_of (filter (\<lambda>(p, s). \<not> exists f (joinpath p (filename m))) runs)"

definition complete_runs :: "filesystem \<Rightarrow> model \<Rightarrow> (path \<times> string) list \<Rightarrow> instant list" where
  "complete_runs f m runs =
     instants_of (filter (\<lambda>(p, s). exists f (joinpath p (filename m))) runs)"


text \<open>
  The artifact of the run at instant \<open>t\<close>, and the run \<open>k\<close> update intervals after a
  given one.
\<close>

definition artifact_path :: "path \<Rightarrow> model \<Rightarrow> instant \<Rightarrow> path" where
  "artifact_path modelpath m t = joinpath (joinpath modelpath (strftime_path t)) (filename m)"

definition run_after :: "instant \<Rightarrow> model \<Rightarrow> nat \<Rightarrow> instant" where
  "run_after inittime m k = inittime + int k * (3600 * int (update_freq m))"

text \<open>The two loops of the scan add the discovered runs to \<open>no_file\<close> and \<open>max_time\<close>.\<close>

definition acc_runs ::
  "filesystem \<Rightarrow> model \<Rightarrow> (path \<times> string) list \<Rightarrow> instant list \<times> instant
     \<Rightarrow> instant list \<times> instant" where
  "acc_runs f m runs acc =
     (fst acc @ incomplete_runs f m runs, fold max (complete_runs f m runs) (snd acc))"

section \<open>Polling a run\<close>

text \<open>
  \<open>check_next_inittime\<close>: a \<open>HEAD\<close> request, without \<open>raise_for_status\<close>, for the
  first file of the next run; the \<open>try\<close> catches \<open>ClientOSError\<close> alone.
\<close>

definition check_next_inittime :: "instant \<Rightarrow> model \<Rightarrow> world \<Rightarrow> (exn + bool) \<times> world" where
  "check_next_inittime init_time m w =
     (let next_inittime = init_time + 3600 * int (update_freq m);
          next_init_url =
            CHECK_URL (case check_url_name m of None \<Rightarrow> simple_model m | Some n \<Rightarrow> n)
            @ format_dir (dir m) next_inittime
            @ ''/'' @ format_file (file_template m) (hour next_inittime) 0
      in case session_request HEAD next_init_url [] False w of
           (Inl e, w') \<Rightarrow> if is_ClientOSError e then (Inr False, w') else (Inl e, w')
         | (Inr r, w') \<Rightarrow> if status r = 200 then (Inr True, w') else (Inr False, w'))"

text \<open>
  \<open>_process_params\<close>: the parameters of each file of a run, in the order of
  \<open>valid_hr_gen\<close>. A dictionary of parameters is an association list; the keys of
  \<open>EXTRA_KEYS\<close> are the fields of the profile that are left out here.
\<close>

type_synonym params = "(string \<times> string) list"

definition process_params :: "model \<Rightarrow> instant \<Rightarrow> params list" where
  "process_params m init_time =
     map (\<lambda>i. [(''endpoint'', endpoint m),
                (''file'', format_file (file_template m) (hour init_time) i),
                (''dir'', format_dir (dir m) init_time)] @ query m @ DOMAIN)
         (valid_hr_gen m (hour init_time))"

definition getitem :: "params \<Rightarrow> string \<Rightarrow> exn + string" where
  "getitem d k = (case map_of d k of None \<Rightarrow> Inl KeyError | Some v \<Rightarrow> Inr v)"

lemma send_replies:
  "send rq w = (r, w') \<Longrightarrow> length (replies w') \<le> length (replies w)"
  by (auto simp: send_def split: list.splits reply.splits)

lemma send_replies_less:
  "send rq w = (r, w') \<Longrightarrow> r \<noteq> Inl CancelledError \<Longrightarrow> length (replies w') < length (replies w)"
  by (auto simp: send_def split: list.splits reply.splits)

lemma session_request_replies:
  "session_request meth url ps rfs w = (r, w') \<Longrightarrow> length (replies w') \<le> length (replies w)"
  by (auto simp: session_request_def split: prod.splits sum.splits if_splits dest: send_replies)

lemma session_request_replies_less:
  "session_request meth url ps rfs w = (Inl e, w') \<Longrightarrow> is_ClientOSError e \<or> is_ClientResponseError e
   \<Longrightarrow> length (replies w') < length (replies w)"
  by (auto simp: session_request_def is_ClientOSError_def is_ClientResponseError_def
      split: prod.splits sum.splits if_splits dest: send_replies_less)

lemma check_next_inittime_replies:
  "check_next_inittime init_time m w = (r, w') \<Longrightarrow> length (replies w') \<le> length (replies w)"
  by (auto simp: check_next_inittime_def Let_def split: prod.splits sum.splits if_splits
      dest: session_request_replies)

lemma utcnow_replies: "utcnow w = (now, w') \<Longrightarrow> replies w' = replies w"
  by (auto simp: utcnow_def)

lemma asyncio_sleep_replies: "replies (asyncio_sleep s w) = replies w"
  by (simp add: asyncio_sleep_def)

text \<open>
  \<open>files_to_retrieve\<close>. The inner \<open>while True\<close> polls one file: it ends with
  \<open>True\<close> when the file is ready (the \<open>yield\<close> and \<open>break\<close>), with \<open>False\<close> when
  the next run is found available (the \<open>return\<close>), each with the value of
  \<open>first_file_modified_at\<close>, or with an exception that is not caught. A response
  without its \<open>Last-Modified\<close> header raises \<open>KeyError\<close>.
\<close>

function poll_file ::
  "model \<Rightarrow> instant \<Rightarrow> string \<Rightarrow> instant option \<Rightarrow> world
     \<Rightarrow> (exn + bool \<times> instant option) \<times> world" where
  "poll_file m init_time next_model_url first_file_modified_at w =
     (case session_request HEAD next_model_url [] True w of
        (Inr r, w1) \<Rightarrow>
          (case first_file_modified_at of
             None \<Rightarrow> (case last_modified r of
                         None \<Rightarrow> (Inl KeyError, w1)
                       | Some t \<Rightarrow> (Inr (True, Some t), w1))
           | Some t \<Rightarrow> (Inr (True, Some t), w1))
      | (Inl e, w1) \<Rightarrow>
          if is_ClientOSError e \<or> is_ClientResponseError e then
            (case first_file_modified_at of
               None \<Rightarrow>
                 poll_file m init_time next_model_url first_file_modified_at
                   (asyncio_sleep (int (time_between_fcst_hrs m)) w1)
             | Some t \<Rightarrow>
                 (case utcnow w1 of
                    (now, w2) \<Rightarrow>
                      if now > t + 60 * int (avg_max_run_length m) then
                        (case check_next_inittime init_time m w2 of
                           (Inl e', w3) \<Rightarrow> (Inl e', w3)
                         | (Inr nextrun_available, w3) \<Rightarrow>
                             if nextrun_available then (Inr (False, first_file_modified_at), w3)
                             else poll_file m init_time next_model_url first_file_modified_at
                                    (asyncio_sleep (int (time_between_fcst_hrs m)) w3))
                      else poll_file m init_time next_model_url first_file_modified_at
                             (asyncio_sleep (int (time_between_fcst_hrs m)) w2)))
          else (Inl e, w1))"
  by pat_completeness auto
termination
proof (relation "measure (\<lambda>(m, init_time, url, first, w). length (replies w))")
  show "wf (measure (\<lambda>(m, init_time, url, first, w). length (replies w)))" by simp
next
  fix m init_time next_model_url first_file_modified_at w x y a
  assume "(x, y) = session_request HEAD next_model_url [] True w" "x = Inl a"
    "is_ClientOSError a \<or> is_ClientResponseError a"
  then show "((m, init_time, next_model_url, first_file_modified_at,
      asyncio_sleep (int (time_between_fcst_hrs m)) y),
      m, init_time, next_model_url, first_file_modified_at, w)
    \<in> measure (\<lambda>(m, init_time, url, first, w). length (replies w))"
    using session_request_replies_less [of HEAD next_model_url "[]" True w a y]
    by (simp add: asyncio_sleep_replies)
next
  fix m init_time next_model_url first_file_modified_at w x y a t xa ya xb yb b
  assume "(x, y) = session_request HEAD next_model_url [] True w" "x = Inl a"
    "is_ClientOSError a \<or> is_ClientResponseError a"
    "(xa, ya) = utcnow y" "(xb, yb) = check_next_inittime init_time m ya"
  then show "((m, init_time, next_model_url, first_file_modified_at,
      asyncio_sleep (int (time_between_fcst_hrs m)) yb),
      m, init_time, next_model_url, first_file_modified_at, w)
    \<in> measure (\<lambda>(m, init_time, url, first, w). length (replies w))"
    using session_request_replies_less [of HEAD next_model_url "[]" True w a y]
      utcnow_replies [of y xa ya] check_next_inittime_replies [of init_time m ya xb yb]
    by (simp add: asyncio_sleep_replies)
next
  fix m init_time next_model_url first_file_modified_at w x y a t xa ya
  assume "(x, y) = session_request HEAD next_model_url [] True w" "x = Inl a"
    "is_ClientOSError a \<or> is_ClientResponseError a" "(xa, ya) = utcnow y"
  then show "((m, init_time, next_model_url, first_file_modified_at,
      asyncio_sleep (int (time_between_fcst_hrs m)) ya),
      m, init_time, next_model_url, first_file_modified_at, w)
    \<in> measure (\<lambda>(m, init_time, url, first, w). length (replies w))"
    using session_request_replies_less [of HEAD next_model_url "[]" True w a y]
      utcnow_replies [of y xa ya]
    by (simp add: asyncio_sleep_replies)
qed

declare poll_file.simps [simp del]

text \<open>
  The run of the generator: the parameters it yields, in order, and how it ends: the
  list of files is exhausted, the run is abandoned for the next one, or an exception is
  raised. The caller of the generator cannot tell the first two apart.
\<close>

datatype ending = Exhausted | Abandoned

fun files_loop ::
  "model \<Rightarrow> instant \<Rightarrow> params list \<Rightarrow> instant option \<Rightarrow> world
     \<Rightarrow> (params list \<times> (exn + ending)) \<times> world" where
  "files_loop m init_time [] first_file_modified_at w = (([], Inr Exhausted), w)"
| "files_loop m init_time (next_params # possible_params) first_file_modified_at w =
     (case getitem next_params ''dir'' of
        Inl e \<Rightarrow> (([], Inl e), w)
      | Inr d \<Rightarrow>
     (case getitem next_params ''file'' of
        Inl e \<Rightarrow> (([], Inl e), w)
      | Inr f \<Rightarrow>
     (case poll_file m init_time
             (CHECK_URL (case check_url_name m of None \<Rightarrow> simple_model m | Some n \<Rightarrow> n)
              @ d @ ''/'' @ f)
             first_file_modified_at w of
        (Inl e, w') \<Rightarrow> (([], Inl e), w')
      | (Inr (False, first'), w') \<Rightarrow> (([], Inr Abandoned), w')
      | (Inr (True, first'), w') \<Rightarrow>
          (case files_loop m init_time possible_params first' w' of
             ((yielded, how), w'') \<Rightarrow> ((next_params # yielded, how), w'')))))"

definition files_to_retrieve ::
  "model \<Rightarrow> instant \<Rightarrow> world \<Rightarrow> (params list \<times> (exn + ending)) \<times> world" where
  "files_to_retrieve m init_time w = files_loop m init_time (process_params m init_time) None w"

section \<open>Fetching, converting and optimizing\<close>

text \<open>
  \<open>_get_file\<close>: the response is read in chunks of \<open>chunksize * 1024\<close> bytes until a
  read returns nothing, and each chunk is written to \<open>tmpfile\<close>, opened with \<open>'wb'\<close>.
\<close>

function read_chunks :: "nat \<Rightarrow> string \<Rightarrow> string" where
  "read_chunks n content =
     (if take n content = [] then [] else take n content @ read_chunks n (drop n content))"
  by pat_completeness auto
termination
  by (relation "measure (\<lambda>(n, content). length content)") auto

declare read_chunks.simps [simp del]

definition get_file ::
  "string \<Rightarrow> params \<Rightarrow> path \<Rightarrow> nat \<Rightarrow> world \<Rightarrow> (exn + unit) \<times> world" where
  "get_file url ps tmpfile chunksize w =
     (case session_request GET url ps True w of
        (Inl e, w1) \<Rightarrow> (Inl e, w1)
      | (Inr r, w1) \<Rightarrow>
          (case write_file (fs w1) tmpfile (read_chunks (chunksize * 1024) (body r)) of
             Inl e \<Rightarrow> (Inl e, w1)
           | Inr f \<Rightarrow>
               (case body_error r of
                  None \<Rightarrow> (Inr (), w1\<lparr>fs := f\<rparr>)
                | Some e \<Rightarrow> if chunksize = 0 then (Inr (), w1\<lparr>fs := f\<rparr>)
                            else (Inl e, w1\<lparr>fs := f\<rparr>))))"

text \<open>
  Modelled from the spec: the decorator \<open>abort_all_on_exception\<close> is imported from
  \<open>solarforecastarbiter.io.fetch\<close>, which is not among the sources. By the
  specification a failure of a fetch or of the conversion aborts the whole process; here
  the exception leaves the run loop, and a result is passed on unchanged.
\<close>

definition abort_all_on_exception ::
  "(world \<Rightarrow> (exn + 'a) \<times> world) \<Rightarrow> world \<Rightarrow> (exn + 'a) \<times> world" where
  "abort_all_on_exception f w = f w"

text \<open>
  Modelled from the spec: \<open>run_in_executor\<close> is imported from
  \<open>solarforecastarbiter.io.fetch\<close> as well. By the specification the optimization is
  invoked with the intermediate artifact and a destination and either rewrites it or
  fails, the failure being propagated; here the function is called in place.
\<close>

definition run_in_executor ::
  "(world \<Rightarrow> (exn + 'a) \<times> world) \<Rightarrow> world \<Rightarrow> (exn + 'a) \<times> world" where
  "run_in_executor f w = f w"

text \<open>
  \<open>fetch_grib_files\<close>. \<open>grib_filename\<close> is the local path of the file: the lines that
  set \<open>filename\<close>.
\<close>

definition grib_filename :: "path \<Rightarrow> instant \<Rightarrow> string \<Rightarrow> exn + path" where
  "grib_filename basepath init_time f =
     (let fname = joinpath (joinpath basepath (strftime_path init_time)) f
      in if \<not> suffix fname = ''.grib2''
         then with_suffix fname (suffix fname @ ''.grib2'')
         else Inr fname)"

definition pop :: "params \<Rightarrow> string \<Rightarrow> params" where
  "pop d k = filter (\<lambda>(k', v). k' \<noteq> k) d"

definition fetch_grib_files ::
  "params \<Rightarrow> path \<Rightarrow> instant \<Rightarrow> nat \<Rightarrow> world \<Rightarrow> (exn + path) \<times> world" where
  "fetch_grib_files ps basepath init_time chunksize =
     abort_all_on_exception (\<lambda>w.
       case getitem ps ''endpoint'' of
         Inl e \<Rightarrow> (Inl e, w)
       | Inr url_endpoint \<Rightarrow>
       (case getitem (pop ps ''endpoint'') ''file'' of
         Inl e \<Rightarrow> (Inl e, w)
       | Inr f \<Rightarrow>
       (case grib_filename basepath init_time f of
         Inl e \<Rightarrow> (Inl e, w)
       | Inr fname \<Rightarrow>
           if exists (fs w) fname then (Inr fname, w)
           else
             (case (if \<not> is_dir (fs w) (parent fname)
                    then mkdir_parents (fs w) (parent fname) else Inr (fs w)) of
                Inl e \<Rightarrow> (Inl e, w)
              | Inr f1 \<Rightarrow>
             (case with_name fname (''.tmp_'' @ name fname) of
                Inl e \<Rightarrow> (Inl e, w\<lparr>fs := f1\<rparr>)
              | Inr tmpfile \<Rightarrow>
             (case get_with_retries
                     (get_file (BASE_URL @ url_endpoint) (pop ps ''endpoint'') tmpfile chunksize)
                     5 (w\<lparr>fs := f1\<rparr>) of
                (Inl e, w2) \<Rightarrow> (Inl e, w2)
              | (Inr u, w2) \<Rightarrow>
                  (case rename (fs w2) tmpfile fname of
                     Inl e \<Rightarrow> (Inl e, w2)
                   | Inr f3 \<Rightarrow> (Inr fname, w2\<lparr>fs := f3\<rparr>))))))))"

text \<open>
  \<open>process_grib_to_netcdf\<close>: the script \<open>GRIB_TO_NC4\<close> is run by \<open>sh\<close> on the folder,
  the temporary netCDF file, the prefix of the grib files and the match flag; a status
  other than 0 removes the temporary file and raises \<open>OSError\<close>. The temporary file
  that holds the script is not modelled.
\<close>

definition path_str :: "path \<Rightarrow> string" where
  "path_str p = concat (map (\<lambda>c. ''/'' @ c) p)"

definition process_grib_to_netcdf :: "path \<Rightarrow> model \<Rightarrow> world \<Rightarrow> (exn + path) \<times> world" where
  "process_grib_to_netcdf folder m =
     abort_all_on_exception (\<lambda>w.
       case mkstemp folder w of
         (Inl e, w1) \<Rightarrow> (Inl e, w1)
       | (Inr nctmp, w1) \<Rightarrow>
           (let grib_prefix = (case split_on CHR ''.'' (file_text (file_template m)) of
                                 [] \<Rightarrow> [] | x # _ \<Rightarrow> x);
                fmt = (if contains (path_str folder) ''subhourly''
                       then ''-match '' @ [CHR 0x27] @ ''ave|TMP|VDDSF'' @ [CHR 0x27]
                       else [])
            in case wgrib2 w1 folder nctmp grib_prefix fmt (fs w1) of
                 (returncode, f2) \<Rightarrow>
                   if returncode \<noteq> 0 then
                     (case unlink f2 nctmp of
                        Inl e \<Rightarrow> (Inl e, w1\<lparr>fs := f2\<rparr>)
                      | Inr f3 \<Rightarrow> (Inl (OSError []), w1\<lparr>fs := f3\<rparr>))
                   else (Inr nctmp, w1\<lparr>fs := f2\<rparr>)))"

text \<open>
  \<open>_optimize_netcdf\<close> reads the dataset of \<open>nctmpfile\<close> and writes its re-encoding to
  \<open>out_path\<close>. \<open>optimize_netcdf\<close> runs it on a temporary file beside \<open>final_path\<close>:
  \<open>except Exception\<close> unlinks that file and raises again, \<open>else\<close> renames it to
  \<open>final_path\<close>, and \<open>finally\<close> unlinks \<open>nctmpfile\<close> in every case. File modes are not
  modelled.
\<close>

definition optimize_netcdf_worker :: "path \<Rightarrow> path \<Rightarrow> world \<Rightarrow> (exn + unit) \<times> world" where
  "optimize_netcdf_worker nctmpfile out_path w =
     (case fs w nctmpfile of
        Some (File content) \<Rightarrow>
          (case encode_netcdf w content of
             Inl e \<Rightarrow> (Inl e, w)
           | Inr encoded \<Rightarrow>
               (case write_file (fs w) out_path encoded of
                  Inl e \<Rightarrow> (Inl e, w)
                | Inr f \<Rightarrow> (Inr (), w\<lparr>fs := f\<rparr>)))
      | Some Dir \<Rightarrow> (Inl (OSError ''IsADirectoryError''), w)
      | None \<Rightarrow> (Inl (OSError ''FileNotFoundError''), w))"

definition finally_unlink :: "path \<Rightarrow> (exn + unit) \<times> world \<Rightarrow> (exn + unit) \<times> world" where
  "finally_unlink nctmpfile rw =
     (case rw of
        (r, w) \<Rightarrow> (case unlink (fs w) nctmpfile of
                     Inl e \<Rightarrow> (Inl e, w)
                   | Inr f \<Rightarrow> (r, w\<lparr>fs := f\<rparr>)))"

definition optimize_netcdf :: "path \<Rightarrow> path \<Rightarrow> world \<Rightarrow> (exn + unit) \<times> world" where
  "optimize_netcdf nctmpfile final_path w =
     (case mkstemp (parent final_path) w of
        (Inl e, w1) \<Rightarrow> (Inl e, w1)
      | (Inr tmp_path, w1) \<Rightarrow>
          finally_unlink nctmpfile
            (case run_in_executor (optimize_netcdf_worker nctmpfile tmp_path) w1 of
               (Inl e, w2) \<Rightarrow>
                 (case unlink (fs w2) tmp_path of
                    Inl e' \<Rightarrow> (Inl e', w2)
                  | Inr f \<Rightarrow> (Inl e, w2\<lparr>fs := f\<rparr>))
             | (Inr u, w2) \<Rightarrow>
                 (case rename (fs w2) tmp_path final_path of
                    Inl e \<Rightarrow> (Inl e, w2)
                  | Inr f \<Rightarrow> (Inr (), w2\<lparr>fs := f\<rparr>))))"

section \<open>The run loop\<close>

text \<open>
  \<open>_run_loop\<close>. The fetch tasks are run one after the other, in the order in which
  the generator yielded their parameters, once the generator has ended;
  \<open>asyncio.gather\<close> returns their paths or raises the first exception. When the
  generator itself raises, the exception leaves the loop. \<open>process_files\<close> is the block
  under \<open>if len(files) != 0\<close>, \<open>run_iteration\<close> the body of the \<open>while\<close> up to the test
  of \<open>once\<close>. The number of passes of the \<open>while True\<close> is bounded by a counter; running
  out of it, like a call of \<open>next_run_time\<close> that does not return, is \<open>None\<close>.
\<close>

fun gather_fetch ::
  "params list \<Rightarrow> path \<Rightarrow> instant \<Rightarrow> nat \<Rightarrow> world \<Rightarrow> (exn + path list) \<times> world" where
  "gather_fetch [] modelpath inittime chunksize w = (Inr [], w)"
| "gather_fetch (ps # rest) modelpath inittime chunksize w =
     (case fetch_grib_files ps modelpath inittime chunksize w of
        (Inl e, w1) \<Rightarrow> (Inl e, w1)
      | (Inr p, w1) \<Rightarrow>
          (case gather_fetch rest modelpath inittime chunksize w1 of
             (Inl e, w2) \<Rightarrow> (Inl e, w2)
           | (Inr files, w2) \<Rightarrow> (Inr (p # files), w2)))"

fun unlink_all :: "path list \<Rightarrow> world \<Rightarrow> (exn + unit) \<times> world" where
  "unlink_all [] w = (Inr (), w)"
| "unlink_all (p # files) w =
     (case unlink (fs w) p of
        Inl e \<Rightarrow> (Inl e, w)
      | Inr f \<Rightarrow> unlink_all files (w\<lparr>fs := f\<rparr>))"

definition process_files :: "path list \<Rightarrow> model \<Rightarrow> world \<Rightarrow> (exn + unit) \<times> world" where
  "process_files files m w =
     (case files of
        [] \<Rightarrow> (Inl IndexError, w)
      | first_file # _ \<Rightarrow>
          (case process_grib_to_netcdf (parent first_file) m w of
             (Inl e, w1) \<Rightarrow> (Inl e, w1)
           | (Inr nctmpfile, w1) \<Rightarrow>
               (case optimize_netcdf nctmpfile (joinpath (parent first_file) (filename m)) w1 of
                  (Inl e, w2) \<Rightarrow> (Inl e, w2)
                | (Inr u, w2) \<Rightarrow> unlink_all files w2)))"

definition run_iteration ::
  "model \<Rightarrow> path \<Rightarrow> nat \<Rightarrow> instant \<Rightarrow> world \<Rightarrow> (exn + unit) \<times> world" where
  "run_iteration m modelpath chunksize inittime w =
     (case files_to_retrieve m inittime w of
        ((yielded, Inl e), w1) \<Rightarrow> (Inl e, w1)
      | ((yielded, Inr how), w1) \<Rightarrow>
          (case gather_fetch yielded modelpath inittime chunksize w1 of
             (Inl e, w2) \<Rightarrow> (Inl e, w2)
           | (Inr files, w2) \<Rightarrow>
               if length files \<noteq> 0 then process_files files m w2 else (Inr (), w2)))"

fun run_loop_from ::
  "nat \<Rightarrow> model \<Rightarrow> path \<Rightarrow> nat \<Rightarrow> bool \<Rightarrow> instant \<Rightarrow> world \<Rightarrow> ((exn + unit) \<times> world) option" where
  "run_loop_from 0 m modelpath chunksize once inittime w = None"
| "run_loop_from (Suc passes) m modelpath chunksize once inittime w =
     (case run_iteration m modelpath chunksize inittime w of
        (Inl e, w1) \<Rightarrow> Some (Inl e, w1)
      | (Inr u, w1) \<Rightarrow>
          if once then Some (Inr (), w1)
          else (case next_run_time inittime modelpath m w1 of
                  None \<Rightarrow> None
                | Some (inittime', w2) \<Rightarrow>
                    run_loop_from passes m modelpath chunksize once inittime' w2))"

definition run_loop ::
  "nat \<Rightarrow> model \<Rightarrow> path \<Rightarrow> nat \<Rightarrow> bool \<Rightarrow> world \<Rightarrow> ((exn + unit) \<times> world) option" where
  "run_loop passes m modelpath chunksize once w =
     (case startup_find_next_runtime modelpath m w of
        (Inl e, w1) \<Rightarrow> Some (Inl e, w1)
      | (Inr inittime, w1) \<Rightarrow> run_loop_from passes m modelpath chunksize once inittime w1)"

section \<open>Worlds and test doubles for the examples\<close>


text \<open>A second one, whose connection the server drops every time.\<close>

definition disconnected_get :: "world \<Rightarrow> (exn + string) \<times> world" where
  "disconnected_get w =
     (Inl ServerDisconnectedError, w\<lparr>requests := requests w @ [(GET, ''u'', [])]\<rparr>)"

text \<open>A world with an empty disk, no answers left and a clock that stands still.\<close>

definition idle_world :: world where
  "idle_world =
     \<lparr>fs = Map.empty, replies = [], requests = [], clock = (\<lambda>n. 0), ticks = 0, slept = [],
      tmpnames = [], wgrib2 = (\<lambda>folder nc prefix fmt f. (1, f)),
      encode_netcdf = (\<lambda>c. Inl ValueError)\<rparr>"

text \<open>Worlds for the examples: a listing page, and disks with some artifacts of GFS runs.\<close>

definition page_of :: "string \<Rightarrow> reply" where
  "page_of text = Reply \<lparr>status = 200, last_modified = None, body = text, body_error = None\<rparr>"

definition gfs_artifact :: "string \<Rightarrow> string \<Rightarrow> string \<Rightarrow> string \<Rightarrow> path" where
  "gfs_artifact y mo d h = [''data'', ''gfs'', y, mo, d, h, ''gfs_0p25.nc'']"


definition world_2023_done :: world where
  "world_2023_done = idle_world
     \<lparr>fs := [gfs_artifact ''2023'' ''04'' ''01'' ''00'' \<mapsto> File ''nc'',
              gfs_artifact ''2023'' ''04'' ''01'' ''06'' \<mapsto> File ''nc''],
      replies := [page_of ''gfs.2023040100 gfs.2023040106'']\<rparr>"



definition world_no_dirs :: world where
  "world_no_dirs = idle_world\<lparr>replies := [page_of ''no runs here'']\<rparr>"

text \<open>The parameters of the first file of the GFS run at 2023-04-01T06:00Z, and a disk that has it.\<close>

definition gfs_params_f000 :: params where
  "gfs_params_f000 =
     [(''endpoint'', ''filter_gfs_0p25_1hr.pl''), (''file'', ''gfs.t06z.pgrb2.0p25.f000''),
      (''dir'', ''/gfs.2023040106'')] @ levels_and_variables @ DOMAIN"

definition gfs_grib_f000 :: path where
  "gfs_grib_f000 = [''data'', ''gfs'', ''2023'', ''04'', ''01'', ''06'', ''gfs.t06z.pgrb2.0p25.f000.grib2'']"

definition world_fetched :: world where
  "world_fetched = idle_world\<lparr>fs := [gfs_grib_f000 \<mapsto> File ''GRIB'']\<rparr>"

text \<open>
  A disk after the conversion of a run: the hour directory with one raw file and the
  intermediate netCDF file \<open>tmpnc\<close>; the re-encoding will fail (that of \<open>idle_world\<close>).
\<close>

definition gfs_hour_dir :: path where
  "gfs_hour_dir = [''data'', ''gfs'', ''2023'', ''04'', ''01'', ''06'']"

definition world_converted :: world where
  "world_converted = idle_world
     \<lparr>fs := [gfs_hour_dir \<mapsto> Dir, gfs_grib_f000 \<mapsto> File ''GRIB'',
              gfs_hour_dir @ [''tmpnc''] \<mapsto> File ''NETCDF''],
      tmpnames := [''tmpnc'', ''tmpopt'']\<rparr>"






section \<open>Properties of the retry loop\<close>








text \<open>
  C10. An exception of \<open>get_func\<close> that is none of \<open>ClientResponseError\<close>,
  \<open>ClientPayloadError\<close> and \<open>ClientOSError\<close> leaves \<open>get_with_retries\<close> at once:
  the outcome and the world are those of that one call, at the first attempt and at any
  later one, so that nothing is retried and nothing is slept.
\<close>

theorem get_with_retries_other_error:
  assumes "get_func w = (Inl e, w')" and "\<not> transient e"
  shows "get_with_retries get_func retries w = (Inl e, w')
         \<and> get_with_retries_loop get_func retries retried w = (Inl e, w')"
  using assms unfolding get_with_retries_def
  by (simp add: get_with_retries_loop.simps [of get_func] transient_def)

theorem get_with_retries_other_error_witness:
  "disconnected_get idle_world
     = (Inl ServerDisconnectedError, idle_world\<lparr>requests := [(GET, ''u'', [])]\<rparr>)
   \<and> \<not> transient ServerDisconnectedError
   \<and> get_with_retries disconnected_get 5 idle_world
     = (Inl ServerDisconnectedError, idle_world\<lparr>requests := [(GET, ''u'', [])]\<rparr>)
   \<and> slept (snd (get_with_retries disconnected_get 5 idle_world)) = []"
proof -
  have c: "disconnected_get idle_world
     = (Inl ServerDisconnectedError, idle_world\<lparr>requests := [(GET, ''u'', [])]\<rparr>)"
    by (simp add: disconnected_get_def idle_world_def)
  have t: "\<not> transient ServerDisconnectedError"
    by (simp add: transient_def is_ClientResponseError_def is_ClientPayloadError_def
        is_ClientOSError_def)
  have "get_with_retries disconnected_get 5 idle_world
     = (Inl ServerDisconnectedError, idle_world\<lparr>requests := [(GET, ''u'', [])]\<rparr>)"
    using get_with_retries_other_error [of disconnected_get idle_world ServerDisconnectedError
        "idle_world\<lparr>requests := [(GET, ''u'', [])]\<rparr>" 5 0] c t
    by simp
  with c t show ?thesis by (simp add: idle_world_def)
qed

section \<open>Properties of the startup scan and of the next run\<close>







lemma acc_runs_Nil [simp]: "acc_runs f m [] acc = acc"
  by (simp add: acc_runs_def incomplete_runs_def complete_runs_def instants_of_def)








lemma GFS_fields:
  "endpoint GFS_0P25_1HR = ''filter_gfs_0p25_1hr.pl''"
  "dir GFS_0P25_1HR = [DText ''/gfs.'', Init_dt]"
  "file_template GFS_0P25_1HR
     = [FText ''gfs.t'', Init_hr_02d, FText ''z.pgrb2.0p25.f'', Valid_hr_03d]"
  "query GFS_0P25_1HR = levels_and_variables"
  "update_freq GFS_0P25_1HR = 6"
  "filename GFS_0P25_1HR = ''gfs_0p25.nc''"
  "delay_to_first_forecast GFS_0P25_1HR = 200"
  "avg_max_run_length GFS_0P25_1HR = 100"
  "time_between_fcst_hrs GFS_0P25_1HR = 60"
  "check_url_name GFS_0P25_1HR = None"
  "member GFS_0P25_1HR = None"
  by (simp_all add: GFS_0P25_1HR_def)

lemma GFS_simple_model: "simple_model GFS_0P25_1HR = ''gfs''"
  by (simp add: simple_model_def GFS_fields)

lemmas listing_eval =
  get_available_dirs_def get_with_retries_def get_with_retries_loop.simps
  get_available_dirs_get_def session_request_def send_def idle_world_def page_of_def
  GFS_fields GFS_simple_model startswith_def BASE_URL_def findall_dirs.simps is_digit_def

lemmas path_eval = joinpath_def parts_def startswith_def gfs_artifact_def exists_def









lemma replicate_numeral: "replicate (numeral k) x = x # replicate (pred_numeral k) x"
  by (simp add: numeral_eq_Suc)









text \<open>
  C7. When the listing names no run directory at all, \<open>startup_find_next_runtime\<close>
  raises \<open>ValueError\<close> and returns no run.
\<close>

theorem startup_find_next_runtime_no_dirs:
  assumes "fst (get_available_dirs m w) = Inr []"
  shows "fst (startup_find_next_runtime model_path m w) = Inl ValueError"
  using assms
  by (cases "get_available_dirs m w") (simp add: startup_find_next_runtime_def)

theorem startup_find_next_runtime_no_dirs_witness:
  "fst (get_available_dirs GFS_0P25_1HR world_no_dirs) = Inr []
   \<and> fst (startup_find_next_runtime [''data'', ''gfs''] GFS_0P25_1HR world_no_dirs)
       = Inl ValueError"
proof -
  have d: "fst (get_available_dirs GFS_0P25_1HR world_no_dirs) = Inr []"
    by (simp add: world_no_dirs_def listing_eval)
  from startup_find_next_runtime_no_dirs [OF d] d show ?thesis by simp
qed

lemma next_run_time_skips:
  assumes "\<not> exists (fs w) (joinpath (joinpath modelpath
              (strftime_path (inittime + int (Suc k) * (3600 * int (update_freq m))))) (filename m))"
    and "\<forall>j. 1 \<le> j \<and> j < Suc k \<longrightarrow> exists (fs w) (joinpath (joinpath modelpath
              (strftime_path (inittime + int j * (3600 * int (update_freq m))))) (filename m))"
  shows "next_run_time inittime modelpath m w
           = Some (inittime + int (Suc k) * (3600 * int (update_freq m)),
                   sleep_until_inittime (inittime + int (Suc k) * (3600 * int (update_freq m))) m w)"
  using assms
proof (induction k arbitrary: inittime)
  case 0
  then show ?case by (subst next_run_time.simps) simp
next
  case (Suc k)
  let ?t = "inittime + 3600 * int (update_freq m)"
  have shift: "\<And>j. ?t + int j * (3600 * int (update_freq m))
                  = inittime + int (Suc j) * (3600 * int (update_freq m))"
    by (simp add: algebra_simps)
  have one: "exists (fs w) (joinpath (joinpath modelpath (strftime_path ?t)) (filename m))"
    using Suc.prems(2) [rule_format, of 1] by simp
  have "next_run_time ?t modelpath m w
         = Some (?t + int (Suc k) * (3600 * int (update_freq m)),
                 sleep_until_inittime (?t + int (Suc k) * (3600 * int (update_freq m))) m w)"
  proof (rule Suc.IH)
    show "\<not> exists (fs w) (joinpath (joinpath modelpath
             (strftime_path (?t + int (Suc k) * (3600 * int (update_freq m))))) (filename m))"
      unfolding shift using Suc.prems(1) .
    show "\<forall>j. 1 \<le> j \<and> j < Suc k \<longrightarrow> exists (fs w) (joinpath (joinpath modelpath
             (strftime_path (?t + int j * (3600 * int (update_freq m))))) (filename m))"
      unfolding shift using Suc.prems(2) by auto
  qed
  then show ?case
    unfolding shift
    by (subst next_run_time.simps) (simp add: one)
qed

text \<open>
  C8. When \<open>k \<ge> 1\<close> is the smallest number of update intervals after which the run has
  no artifact on the disk (the runs 1 to \<open>k - 1\<close> intervals after the previous one all
  have theirs), \<open>next_run_time\<close> returns the instant of the previous run plus \<open>k\<close>
  update intervals, after the sleep until that run may be ready.
\<close>

theorem next_run_time_smallest:
  assumes "1 \<le> k"
    and "\<not> exists (fs w) (artifact_path modelpath m (run_after inittime m k))"
    and "\<forall>j \<in> set [1..<k]. exists (fs w) (artifact_path modelpath m (run_after inittime m j))"
  shows "next_run_time inittime modelpath m w
           = Some (run_after inittime m k, sleep_until_inittime (run_after inittime m k) m w)"
proof -
  from assms(1) obtain k' where k: "k = Suc k'" by (cases k) auto
  show ?thesis
    unfolding k run_after_def
    by (rule next_run_time_skips)
       (use assms(2,3) in \<open>auto simp: k run_after_def artifact_path_def\<close>)
qed

lemma civil_examples:
  "civil_from_days 19448 = (2023, 4, 1)"
  "civil_from_days 10957 = (2000, 1, 1)"
  by code_simp+

lemmas strftime_eval =
  strftime_path_def strftime_Ymd_def strftime_YmdH_def strftime_H_def civil_examples
  hour_def zero_pad_def str_nat.simps replicate_numeral

lemma strftime_examples:
  "strftime_path 1680307200 = ''2023/04/01/00''"
  "strftime_path 1680328800 = ''2023/04/01/06''"
  "strftime_path 1680350400 = ''2023/04/01/12''"
  "strftime_path 1680372000 = ''2023/04/01/18''"
  by (simp_all add: strftime_eval)

theorem next_run_time_smallest_witness:
  "(1::nat) \<le> 3
   \<and> \<not> exists (fs world_2023_done)
         (artifact_path [''data'', ''gfs''] GFS_0P25_1HR (run_after 1680285600 GFS_0P25_1HR 3))
   \<and> exists (fs world_2023_done)
         (artifact_path [''data'', ''gfs''] GFS_0P25_1HR (run_after 1680285600 GFS_0P25_1HR 1))
   \<and> exists (fs world_2023_done)
         (artifact_path [''data'', ''gfs''] GFS_0P25_1HR (run_after 1680285600 GFS_0P25_1HR 2))
   \<and> map_option fst (next_run_time 1680285600 [''data'', ''gfs''] GFS_0P25_1HR world_2023_done)
       = Some 1680350400"
proof -
  have r: "run_after 1680285600 GFS_0P25_1HR (Suc 0) = 1680307200"
    "run_after 1680285600 GFS_0P25_1HR 2 = 1680328800"
    "run_after 1680285600 GFS_0P25_1HR 3 = 1680350400"
    by (simp_all add: run_after_def GFS_fields)
  have a: "(1::nat) \<le> 3" by simp
  have b: "\<not> exists (fs world_2023_done)
         (artifact_path [''data'', ''gfs''] GFS_0P25_1HR (run_after 1680285600 GFS_0P25_1HR 3))"
    by (simp add: r artifact_path_def strftime_examples path_eval GFS_fields
        world_2023_done_def idle_world_def)
  have e1: "exists (fs world_2023_done)
         (artifact_path [''data'', ''gfs''] GFS_0P25_1HR (run_after 1680285600 GFS_0P25_1HR 1))"
    by (simp add: r artifact_path_def strftime_examples path_eval GFS_fields
        world_2023_done_def idle_world_def)
  have e2: "exists (fs world_2023_done)
         (artifact_path [''data'', ''gfs''] GFS_0P25_1HR (run_after 1680285600 GFS_0P25_1HR 2))"
    by (simp add: r artifact_path_def strftime_examples path_eval GFS_fields
        world_2023_done_def idle_world_def)
  have "set [1..<3] = {1, 2::nat}" by auto
  with e1 e2 have c: "\<forall>j \<in> set [1..<3]. exists (fs world_2023_done)
         (artifact_path [''data'', ''gfs''] GFS_0P25_1HR (run_after 1680285600 GFS_0P25_1HR j))"
    by simp
  from next_run_time_smallest [OF a b c] a b e1 e2 show ?thesis by (simp add: r)
qed

section \<open>Properties of the rollover check\<close>







section \<open>Properties of the fetch\<close>

lemma endswith_append: "endswith (a @ t) t"
  by (simp add: endswith_def)

lemma suffix_of_name:
  "suffix p \<noteq> [] \<Longrightarrow> take (length (name p) - length (suffix p)) (name p) @ suffix p = name p"
  by (auto simp: suffix_def Let_def split: if_splits)

lemma name_snoc: "name (q @ [x]) = x"
  by (simp add: name_def)

lemma grib_filename_shape:
  assumes "grib_filename basepath init_time f = Inr p"
  shows "p = (let q = joinpath (joinpath basepath (strftime_path init_time)) f
              in if suffix q = ''.grib2'' then q else parent q @ [name q @ ''.grib2''])"
proof -
  let ?q = "joinpath (joinpath basepath (strftime_path init_time)) f"
  show ?thesis
  proof (cases "suffix ?q = ''.grib2''")
    case True
    with assms show ?thesis by (simp add: grib_filename_def Let_def)
  next
    case False
    show ?thesis
    proof (cases "suffix ?q = []")
      case True
      with assms False show ?thesis
        by (auto simp: grib_filename_def Let_def with_suffix_def parent_def split: if_splits)
    next
      case nonempty: False
      from suffix_of_name [OF nonempty]
      have "take (length (name ?q) - length (suffix ?q)) (name ?q) @ suffix ?q @ ''.grib2''
              = name ?q @ ''.grib2''"
        by (metis append.assoc)
      with assms False nonempty show ?thesis
        by (auto simp: grib_filename_def Let_def with_suffix_def parent_def split: if_splits)
    qed
  qed
qed

lemma grib_filename_endswith:
  assumes "grib_filename basepath init_time f = Inr p"
  shows "endswith (name p) ''.grib2''"
proof -
  let ?q = "joinpath (joinpath basepath (strftime_path init_time)) f"
  show ?thesis
  proof (cases "suffix ?q = ''.grib2''")
    case True
    then have "suffix ?q \<noteq> []" by auto
    from suffix_of_name [OF this] True
    have "name ?q = take (length (name ?q) - length (suffix ?q)) (name ?q) @ ''.grib2''" by simp
    then have "endswith (name ?q) ''.grib2''" by (metis endswith_append)
    with grib_filename_shape [OF assms] True show ?thesis by (simp add: Let_def)
  next
    case False
    with grib_filename_shape [OF assms] show ?thesis
      by (simp add: Let_def name_snoc endswith_append parent_def)
  qed
qed

lemma fetch_grib_files_returns:
  assumes "fetch_grib_files ps basepath init_time chunksize w = (Inr p, w')"
  shows "\<exists>ep f. getitem ps ''endpoint'' = Inr ep \<and> getitem (pop ps ''endpoint'') ''file'' = Inr f
           \<and> grib_filename basepath init_time f = Inr p"
  using assms
  by (auto simp: fetch_grib_files_def abort_all_on_exception_def
      split: sum.splits prod.splits if_splits)

text \<open>
  C4. When the parameters name an endpoint and a file and the local path of that file
  exists, \<open>fetch_grib_files\<close> returns that path and leaves the world as it was: no
  request is sent and the file system, with the file, is unchanged.
\<close>

theorem fetch_grib_files_existing:
  assumes "getitem ps ''endpoint'' = Inr ep"
    and "getitem (pop ps ''endpoint'') ''file'' = Inr f"
    and "grib_filename basepath init_time f = Inr p"
    and "exists (fs w) p"
  shows "fetch_grib_files ps basepath init_time chunksize w = (Inr p, w)"
  using assms by (simp add: fetch_grib_files_def abort_all_on_exception_def)

text \<open>
  C9. A path that \<open>fetch_grib_files\<close> returns has a name that ends in \<open>.grib2\<close>: it is
  the path of the remote file under the directory of the run, unchanged when its
  \<open>suffix\<close> is \<open>.grib2\<close>, and with \<open>.grib2\<close> appended to its name otherwise, which
  is the case whenever the name does not end in \<open>.grib2\<close>.
\<close>

theorem fetch_grib_files_grib2:
  assumes "fetch_grib_files ps basepath init_time chunksize w = (Inr p, w')"
  shows "endswith (name p) ''.grib2''
    \<and> (\<exists>f. getitem (pop ps ''endpoint'') ''file'' = Inr f
          \<and> p = (if suffix (joinpath (joinpath basepath (strftime_path init_time)) f) = ''.grib2''
                 then joinpath (joinpath basepath (strftime_path init_time)) f
                 else parent (joinpath (joinpath basepath (strftime_path init_time)) f)
                      @ [name (joinpath (joinpath basepath (strftime_path init_time)) f) @ ''.grib2''])
          \<and> (\<not> endswith (name (joinpath (joinpath basepath (strftime_path init_time)) f)) ''.grib2''
               \<longrightarrow> name p = name (joinpath (joinpath basepath (strftime_path init_time)) f) @ ''.grib2''))"
proof -
  from fetch_grib_files_returns [OF assms] obtain ep f where
    f: "getitem (pop ps ''endpoint'') ''file'' = Inr f"
    and g: "grib_filename basepath init_time f = Inr p" by blast
  let ?q = "joinpath (joinpath basepath (strftime_path init_time)) f"
  have shape: "p = (if suffix ?q = ''.grib2'' then ?q else parent ?q @ [name ?q @ ''.grib2''])"
    using grib_filename_shape [OF g] by (simp add: Let_def)
  have "suffix ?q = ''.grib2'' \<Longrightarrow> endswith (name ?q) ''.grib2''"
    using grib_filename_endswith [OF g] shape by simp
  then have "\<not> endswith (name ?q) ''.grib2'' \<longrightarrow> name p = name ?q @ ''.grib2''"
    using shape by (auto simp: name_snoc)
  with grib_filename_endswith [OF g] f shape show ?thesis by blast
qed


lemma rfind_example: "rfind CHR ''.'' ''gfs.t06z.pgrb2.0p25.f000'' = 19"
  by (simp add: rfind_def upt_rec)


lemma gfs_params_items:
  "getitem gfs_params_f000 ''endpoint'' = Inr ''filter_gfs_0p25_1hr.pl''"
  "getitem (pop gfs_params_f000 ''endpoint'') ''file'' = Inr ''gfs.t06z.pgrb2.0p25.f000''"
  by (simp_all add: getitem_def pop_def gfs_params_f000_def)

lemma gfs_grib_filename:
  "grib_filename [''data'', ''gfs''] 1680328800 ''gfs.t06z.pgrb2.0p25.f000'' = Inr gfs_grib_f000"
  by (simp add: grib_filename_def strftime_examples joinpath_def parts_def startswith_def
      suffix_def name_def rfind_example with_suffix_def gfs_grib_f000_def)

lemma world_fetched_exists: "exists (fs world_fetched) gfs_grib_f000"
  by (simp add: world_fetched_def idle_world_def exists_def)

theorem fetch_grib_files_existing_witness:
  "getitem gfs_params_f000 ''endpoint'' = Inr ''filter_gfs_0p25_1hr.pl''
   \<and> getitem (pop gfs_params_f000 ''endpoint'') ''file'' = Inr ''gfs.t06z.pgrb2.0p25.f000''
   \<and> grib_filename [''data'', ''gfs''] 1680328800 ''gfs.t06z.pgrb2.0p25.f000'' = Inr gfs_grib_f000
   \<and> exists (fs world_fetched) gfs_grib_f000
   \<and> fetch_grib_files gfs_params_f000 [''data'', ''gfs''] 1680328800 128 world_fetched
       = (Inr gfs_grib_f000, world_fetched)
   \<and> requests world_fetched = []"
  using fetch_grib_files_existing [OF gfs_params_items gfs_grib_filename world_fetched_exists, of 128]
    gfs_params_items gfs_grib_filename world_fetched_exists
  by (simp add: world_fetched_def idle_world_def)

lemma fetch_example:
  "fetch_grib_files gfs_params_f000 [''data'', ''gfs''] 1680328800 128 world_fetched
       = (Inr gfs_grib_f000, world_fetched)"
  by (simp add: fetch_grib_files_def abort_all_on_exception_def gfs_params_items
      gfs_grib_filename world_fetched_exists)

theorem fetch_grib_files_grib2_witness:
  "fetch_grib_files gfs_params_f000 [''data'', ''gfs''] 1680328800 128 world_fetched
       = (Inr gfs_grib_f000, world_fetched)
   \<and> endswith (name gfs_grib_f000) ''.grib2''
   \<and> name gfs_grib_f000 = ''gfs.t06z.pgrb2.0p25.f000'' @ ''.grib2''"
  using fetch_grib_files_grib2 [OF fetch_example] fetch_example
  by (simp add: gfs_grib_f000_def name_def)

section \<open>Properties of the optimization\<close>

lemma mkstemp_Inr:
  assumes "mkstemp folder w = (Inr p, w1)"
  shows "p \<noteq> [] \<and> fs w p = None \<and> fs w1 = (fs w)(p \<mapsto> File [])
         \<and> encode_netcdf w1 = encode_netcdf w"
proof -
  from assms obtain n ns where
    d: "dropWhile (\<lambda>n. exists (fs w) (folder @ [n])) (tmpnames w) = n # ns"
    and p: "p = folder @ [n]"
    and w1: "w1 = w\<lparr>fs := (fs w)(folder @ [n] \<mapsto> File []), tmpnames := ns\<rparr>"
    by (auto simp: mkstemp_def split: if_splits list.splits)
  from d have "\<not> exists (fs w) (folder @ [n])"
    by (metis (mono_tags, lifting) dropWhile_eq_Cons_conv)
  with p w1 show ?thesis by (simp add: exists_def)
qed

lemma optimize_netcdf_fails:
  assumes "nctmpfile \<noteq> []"
    and "fs w nctmpfile = Some (File content)"
    and "encode_netcdf w content = Inl e"
    and "mkstemp (parent final_path) w = (Inr tmp_path, w1)"
  shows "fst (optimize_netcdf nctmpfile final_path w) = Inl e
       \<and> fs (snd (optimize_netcdf nctmpfile final_path w)) = (fs w)(nctmpfile := None)"
proof -
  from mkstemp_Inr [OF assms(4)] have tmp: "tmp_path \<noteq> []" "fs w tmp_path = None"
    and fs1: "fs w1 = (fs w)(tmp_path \<mapsto> File [])"
    and enc: "encode_netcdf w1 = encode_netcdf w" by simp_all
  from tmp(2) assms(2) have neq: "tmp_path \<noteq> nctmpfile" by auto
  have worker: "run_in_executor (optimize_netcdf_worker nctmpfile tmp_path) w1 = (Inl e, w1)"
    using assms(2,3) neq by (simp add: run_in_executor_def optimize_netcdf_worker_def fs1 enc)
  have un1: "unlink (fs w1) tmp_path = Inr (fs w)"
    using tmp by (auto simp: unlink_def fs1 is_dir_def exists_def)
  have un2: "unlink (fs w) nctmpfile = Inr ((fs w)(nctmpfile := None))"
    using assms(1,2) by (simp add: unlink_def is_dir_def exists_def)
  show ?thesis
    by (simp add: optimize_netcdf_def assms(4) worker un1 finally_unlink_def un2)
qed

text \<open>
  C6, as the code has it. When the re-encoding of the intermediate netCDF file fails,
  \<open>optimize_netcdf\<close> raises that error, and the file system it leaves is the one it
  found without the intermediate file: the temporary output of the optimizer is removed
  by the \<open>except\<close> clause, the intermediate file by the \<open>finally\<close> clause, and every
  other file, the raw downloads among them, is as it was.
\<close>

theorem optimize_netcdf_failure:
  assumes "nctmpfile \<noteq> []"
    and "fs w nctmpfile = Some (File content)"
    and "encode_netcdf w content = Inl e"
    and "mkstemp (parent final_path) w = (Inr tmp_path, w1)"
  shows "fst (optimize_netcdf nctmpfile final_path w) = Inl e
       \<and> fs (snd (optimize_netcdf nctmpfile final_path w)) = (fs w)(nctmpfile := None)"
  using assms by (rule optimize_netcdf_fails)

lemma world_converted_fields:
  "fs world_converted = [gfs_hour_dir \<mapsto> Dir, gfs_grib_f000 \<mapsto> File ''GRIB'',
                         gfs_hour_dir @ [''tmpnc''] \<mapsto> File ''NETCDF'']"
  "encode_netcdf world_converted = (\<lambda>c. Inl ValueError)"
  "tmpnames world_converted = [''tmpnc'', ''tmpopt'']"
  by (simp_all add: world_converted_def idle_world_def)

lemma world_converted_mkstemp:
  "mkstemp (parent (joinpath gfs_hour_dir (filename GFS_0P25_1HR))) world_converted
     = (Inr (gfs_hour_dir @ [''tmpopt'']),
        world_converted\<lparr>fs := (fs world_converted)(gfs_hour_dir @ [''tmpopt''] \<mapsto> File []),
                         tmpnames := []\<rparr>)"
  by (simp add: mkstemp_def world_converted_def idle_world_def gfs_hour_dir_def gfs_grib_f000_def
      GFS_fields path_eval parent_def is_dir_def)

theorem optimize_netcdf_failure_witness:
  "gfs_hour_dir @ [''tmpnc''] \<noteq> []
   \<and> fs world_converted (gfs_hour_dir @ [''tmpnc'']) = Some (File ''NETCDF'')
   \<and> encode_netcdf world_converted ''NETCDF'' = Inl ValueError
   \<and> fst (optimize_netcdf (gfs_hour_dir @ [''tmpnc''])
            (joinpath gfs_hour_dir (filename GFS_0P25_1HR)) world_converted) = Inl ValueError
   \<and> fs (snd (optimize_netcdf (gfs_hour_dir @ [''tmpnc''])
            (joinpath gfs_hour_dir (filename GFS_0P25_1HR)) world_converted))
       = (fs world_converted)(gfs_hour_dir @ [''tmpnc''] := None)"
proof -
  have a: "gfs_hour_dir @ [''tmpnc''] \<noteq> []" by simp
  have b: "fs world_converted (gfs_hour_dir @ [''tmpnc'']) = Some (File ''NETCDF'')"
    by (simp add: world_converted_def idle_world_def)
  have c: "encode_netcdf world_converted ''NETCDF'' = Inl ValueError"
    by (simp add: world_converted_def idle_world_def)
  from optimize_netcdf_failure [OF a b c world_converted_mkstemp] a b c show ?thesis by simp
qed

text \<open>
  The claim as the specification words it fails for the intermediate artifact: after the
  failed optimization the intermediate netCDF file is gone, while the raw file is kept.
\<close>

theorem optimize_netcdf_intermediate_counterexample:
  "fst (optimize_netcdf (gfs_hour_dir @ [''tmpnc''])
          (joinpath gfs_hour_dir (filename GFS_0P25_1HR)) world_converted) = Inl ValueError
   \<and> fs world_converted (gfs_hour_dir @ [''tmpnc'']) = Some (File ''NETCDF'')
   \<and> fs (snd (optimize_netcdf (gfs_hour_dir @ [''tmpnc''])
          (joinpath gfs_hour_dir (filename GFS_0P25_1HR)) world_converted))
        (gfs_hour_dir @ [''tmpnc'']) = None
   \<and> fs (snd (optimize_netcdf (gfs_hour_dir @ [''tmpnc''])
          (joinpath gfs_hour_dir (filename GFS_0P25_1HR)) world_converted))
        gfs_grib_f000 = Some (File ''GRIB'')"
proof -
  have a: "gfs_hour_dir @ [''tmpnc''] \<noteq> []" by simp
  have b: "fs world_converted (gfs_hour_dir @ [''tmpnc'']) = Some (File ''NETCDF'')"
    by (simp add: world_converted_fields)
  have c: "encode_netcdf world_converted ''NETCDF'' = Inl ValueError"
    by (simp add: world_converted_fields)
  have d: "gfs_grib_f000 \<noteq> gfs_hour_dir @ [''tmpnc'']"
    by (simp add: gfs_grib_f000_def gfs_hour_dir_def)
  from optimize_netcdf_fails [OF a b c world_converted_mkstemp] b d show ?thesis
    by (simp add: world_converted_fields)
qed

section \<open>Properties of an abandoned run\<close>



























end
